theory Spec2Isabelle
  imports Complex_Main
begin

section \<open>JavaScript values and string conversions\<close>

text \<open>
  The controller is written in TypeScript and runs as JavaScript. Numbers that the code
  handles (ids, timestamps) are integers and are modelled as \<open>int\<close>; a field typed
  \<open>T | null\<close> is \<open>T option\<close> with \<open>None\<close> for \<open>null\<close>. The three credentials are
  checked with \<open>typeof\<close> at run time, so they are values of any JavaScript type.
\<close>

datatype jsval = Undefined | Null | Bool bool | Num int | Str string

text \<open>\<open>typeof v == 'string'\<close>.\<close>

fun is_string :: "jsval \<Rightarrow> bool" where
  "is_string (Str s) = True"
| "is_string v = False"

text \<open>ToBoolean: what \<open>&&\<close>, \<open>||\<close>, \<open>!\<close> and \<open>if\<close> look at.\<close>

fun truthy :: "jsval \<Rightarrow> bool" where
  "truthy Undefined = False"
| "truthy Null = False"
| "truthy (Bool b) = b"
| "truthy (Num n) = (n \<noteq> 0)"
| "truthy (Str s) = (s \<noteq> [])"

definition truthy_str :: "string option \<Rightarrow> bool" where
  "truthy_str v = (case v of None \<Rightarrow> False | Some s \<Rightarrow> s \<noteq> [])"

text \<open>
  Decimal rendering of an integer, as a template literal renders a number (of magnitude
  below \<open>10^21\<close>; the ids of the platform are far smaller).
\<close>

fun digits10 :: "nat \<Rightarrow> string" where
  "digits10 n =
     (if n < 10 then [''0123456789'' ! n]
      else digits10 (n div 10) @ [''0123456789'' ! (n mod 10)])"

definition show_int :: "int \<Rightarrow> string" where
  "show_int i = (if i < 0 then CHR ''-'' # digits10 (nat (- i)) else digits10 (nat i))"

text \<open>
  A template literal \<open>${v}\<close> for a value typed \<open>number | null\<close> or \<open>string | null\<close>: \<open>null\<close> is rendered
  as the four letters \<open>null\<close>.
\<close>

definition tpl_num :: "int option \<Rightarrow> string" where
  "tpl_num v = (case v of None \<Rightarrow> ''null'' | Some i \<Rightarrow> show_int i)"

definition tpl_str :: "string option \<Rightarrow> string" where
  "tpl_str v = (case v of None \<Rightarrow> ''null'' | Some s \<Rightarrow> s)"

text \<open>Rendering of a credential in the login payload (a string once the checks passed).\<close>

fun str_of :: "jsval \<Rightarrow> string" where
  "str_of (Str s) = s"
| "str_of Undefined = ''undefined''"
| "str_of Null = ''null''"
| "str_of (Bool b) = (if b then ''true'' else ''false'')"
| "str_of (Num n) = show_int n"

subsection \<open>Loose equality\<close>

text \<open>
  \<open>getIDs\<close> compares with \<open>==\<close>, which converts a string operand to a number when the other
  operand is a number. The conversion follows the StringNumericLiteral grammar of the
  language: surrounding white space, an optional sign, decimal digits with an optional
  fraction and exponent, \<open>Infinity\<close>, and the prefixes \<open>0x\<close>, \<open>0o\<close>, \<open>0b\<close>. A character is a
  code unit below 256. The value is exact (a rational): the rounding of a literal to the
  nearest double is not modelled.
\<close>

datatype jsnumber = NaN | Infinite bool | Finite rat

definition StrWhiteSpaceChar :: "char \<Rightarrow> bool" where
  "StrWhiteSpaceChar c = (of_char c \<in> {9, 10, 11, 12, 13, 32, 160 :: nat})"

definition digit_val :: "char \<Rightarrow> nat option" where
  "digit_val c =
     (let n = of_char c :: nat in
      if 48 \<le> n \<and> n \<le> 57 then Some (n - 48)
      else if 97 \<le> n \<and> n \<le> 102 then Some (n - 87)
      else if 65 \<le> n \<and> n \<le> 70 then Some (n - 55)
      else None)"

definition is_digit :: "nat \<Rightarrow> char \<Rightarrow> bool" where
  "is_digit b c = (case digit_val c of None \<Rightarrow> False | Some d \<Rightarrow> d < b)"

definition digits_value :: "nat \<Rightarrow> string \<Rightarrow> nat" where
  "digits_value b s =
     foldl (\<lambda>a c. a * b + (case digit_val c of None \<Rightarrow> 0 | Some d \<Rightarrow> d)) 0 s"

definition parse_digits :: "nat \<Rightarrow> string \<Rightarrow> jsnumber" where
  "parse_digits b s =
     (if s \<noteq> [] \<and> list_all (is_digit b) s then Finite (of_nat (digits_value b s)) else NaN)"

definition pow10 :: "int \<Rightarrow> rat" where
  "pow10 e = (if 0 \<le> e then 10 ^ nat e else 1 / 10 ^ nat (- e))"

definition is_exp_char :: "char \<Rightarrow> bool" where
  "is_exp_char c = (c = CHR ''e'' \<or> c = CHR ''E'')"

text \<open>The exponent part: nothing, or \<open>e\<close> with an optionally signed run of digits.\<close>

definition parse_exponent :: "string \<Rightarrow> int option" where
  "parse_exponent s =
     (case s of
        [] \<Rightarrow> Some 0
      | c # r \<Rightarrow>
          (let (neg, ds) = (case r of
                              [] \<Rightarrow> (False, [])
                            | x # xs \<Rightarrow> if x = CHR ''+'' then (False, xs)
                                       else if x = CHR ''-'' then (True, xs) else (False, r))
           in if ds \<noteq> [] \<and> list_all (is_digit 10) ds
              then Some (if neg then - int (digits_value 10 ds) else int (digits_value 10 ds))
              else None))"

definition StrUnsignedDecimalLiteral :: "string \<Rightarrow> jsnumber" where
  "StrUnsignedDecimalLiteral s =
     (if s = ''Infinity'' then Infinite False
      else
        let m = takeWhile (\<lambda>c. \<not> is_exp_char c) s;
            e = dropWhile (\<lambda>c. \<not> is_exp_char c) s;
            ip = takeWhile (\<lambda>c. c \<noteq> CHR ''.'') m;
            fp = (case dropWhile (\<lambda>c. c \<noteq> CHR ''.'') m of [] \<Rightarrow> [] | dot # f \<Rightarrow> f)
        in if (ip \<noteq> [] \<or> fp \<noteq> []) \<and> list_all (is_digit 10) ip \<and> list_all (is_digit 10) fp
           then (case parse_exponent e of
                   None \<Rightarrow> NaN
                 | Some x \<Rightarrow>
                     Finite (of_nat (digits_value 10 (ip @ fp)) * pow10 (x - int (length fp))))
           else NaN)"

fun negate :: "jsnumber \<Rightarrow> jsnumber" where
  "negate NaN = NaN"
| "negate (Infinite b) = Infinite (\<not> b)"
| "negate (Finite q) = Finite (- q)"

definition StrDecimalLiteral :: "string \<Rightarrow> jsnumber" where
  "StrDecimalLiteral s =
     (case s of
        [] \<Rightarrow> NaN
      | c # r \<Rightarrow> if c = CHR ''+'' then StrUnsignedDecimalLiteral r
                else if c = CHR ''-'' then negate (StrUnsignedDecimalLiteral r)
                else StrUnsignedDecimalLiteral s)"

definition trim :: "string \<Rightarrow> string" where
  "trim s = rev (dropWhile StrWhiteSpaceChar (rev (dropWhile StrWhiteSpaceChar s)))"

definition StringToNumber :: "string \<Rightarrow> jsnumber" where
  "StringToNumber s =
     (let t = trim s in
      case t of
        [] \<Rightarrow> Finite 0
      | [c] \<Rightarrow> StrDecimalLiteral t
      | c # x # r \<Rightarrow>
          if c = CHR ''0'' \<and> (x = CHR ''x'' \<or> x = CHR ''X'') then parse_digits 16 r
          else if c = CHR ''0'' \<and> (x = CHR ''o'' \<or> x = CHR ''O'') then parse_digits 8 r
          else if c = CHR ''0'' \<and> (x = CHR ''b'' \<or> x = CHR ''B'') then parse_digits 2 r
          else StrDecimalLiteral t)"

text \<open>\<open>n == v\<close> for a number \<open>n\<close>, and \<open>s == v\<close> for a string \<open>s\<close>.\<close>

fun loose_eq_num :: "int \<Rightarrow> jsval \<Rightarrow> bool" where
  "loose_eq_num i (Num k) = (i = k)"
| "loose_eq_num i (Str s) = (StringToNumber s = Finite (of_int i))"
| "loose_eq_num i (Bool b) = (i = (if b then 1 else 0))"
| "loose_eq_num i Null = False"
| "loose_eq_num i Undefined = False"

fun loose_eq_str :: "string \<Rightarrow> jsval \<Rightarrow> bool" where
  "loose_eq_str s (Str t) = (s = t)"
| "loose_eq_str s (Num k) = (StringToNumber s = Finite (of_int k))"
| "loose_eq_str s (Bool b) = (StringToNumber s = Finite (if b then 1 else 0))"
| "loose_eq_str s Null = False"
| "loose_eq_str s Undefined = False"

subsection \<open>Regular expressions and \<open>String.prototype.replace\<close>\<close>

text \<open>
  The one regular expression of the sources is a sequence of a literal character, a
  negated one-character class under \<open>+\<close>, the assertion \<open>$\<close> and a literal character.
  \<open>match_here re s\<close> matches \<open>re\<close> at the start of \<open>s\<close> and returns what follows the match;
  \<open>+\<close> is greedy and gives characters back one at a time. Without the \<open>m\<close> flag \<open>$\<close> holds
  at the end of the input only, and a negated class matches line terminators too.
\<close>

datatype atom = Lit char | PlusNot char | EndOfInput

fun match_here :: "atom list \<Rightarrow> string \<Rightarrow> string option"
  and match_more :: "char \<Rightarrow> atom list \<Rightarrow> string \<Rightarrow> string option" where
  "match_here [] s = Some s"
| "match_here (Lit c # r) [] = None"
| "match_here (Lit c # r) (x # xs) = (if x = c then match_here r xs else None)"
| "match_here (EndOfInput # r) s = (if s = [] then match_here r s else None)"
| "match_here (PlusNot c # r) [] = None"
| "match_here (PlusNot c # r) (x # xs) = (if x = c then None else match_more c r xs)"
| "match_more c r [] = match_here r []"
| "match_more c r (x # xs) =
     (if x = c then match_here r (x # xs)
      else (case match_more c r xs of
              Some rest \<Rightarrow> Some rest
            | None \<Rightarrow> match_here r (x # xs)))"

text \<open>
  \<open>s.replace(re, new)\<close> for a pattern without the \<open>g\<close> flag and a replacement without
  \<open>$\<close>: the leftmost match is replaced, and a string without a match is returned as it is.
\<close>

fun replace :: "atom list \<Rightarrow> string \<Rightarrow> string \<Rightarrow> string" where
  "replace re new s =
     (case match_here re s of
        Some rest \<Rightarrow> new @ rest
      | None \<Rightarrow> (case s of [] \<Rightarrow> [] | x # xs \<Rightarrow> x # replace re new xs))"

section \<open>Constants of the repository\<close>

text \<open>
  \<open>constants.ts\<close> is imported by the sources but is not part of them; its four values are
  parameters of every definition that uses them.
\<close>

record constants =
  BLINK_URL :: string
  LOGIN_URL :: string
  LOGIN_URL_2FA :: string
  SIZE_NOTIFICATION_KEY :: nat

section \<open>create-blink-urls.ts\<close>

record BlinkUrls =
  baseUrl :: string
  networkUrl :: string
  armUrl :: string
  videoUrl :: string
  homeUrl :: string

text \<open>
  The signature says \<open>(accountId: number, regionId: string)\<close>, but every caller in the
  controller passes \<open>this._accountId!\<close> and \<open>this._regionId!\<close>, which are \<open>null\<close> until set:
  the arguments are optional values here and the template renders them.
\<close>

definition createBlinkUrls :: "constants \<Rightarrow> int option \<Rightarrow> string option \<Rightarrow> BlinkUrls" where
  "createBlinkUrls K accountId regionId =
     (let base = ''https://rest-'' @ tpl_str regionId @ ''.'' @ BLINK_URL K in
      \<lparr> baseUrl = base,
        networkUrl = base @ ''/network/'',
        armUrl = base @ ''/api/v1/accounts/'' @ tpl_num accountId @ ''/networks/'',
        videoUrl = base @ ''/api/v1/accounts/'' @ tpl_num accountId @ ''/media/changed'',
        homeUrl = base @ ''/api/v3/accounts/'' @ tpl_num accountId @ ''/homescreen'' \<rparr>)"

section \<open>types.ts\<close>

record BlinkDeviceResponse =
  d_id :: int
  d_name :: string
  d_type :: string
  d_network_id :: int
  d_region_id :: "string option"
  d_status :: string
  d_enabled :: bool
  d_thumbnail :: string
  d_signals :: "(string \<times> int) list option"
  d_battery :: int
  d_updated_at :: int

record BlinkSyncModule =
  sm_id :: int
  sm_network_id :: int
  sm_status :: string

record BlinkNetwork =
  n_id :: int
  n_name :: string
  n_armed :: bool

text \<open>
  The home-screen document. \<open>SummaryResponse\<close> names four fields; \<open>getIDs\<close> also reads
  \<open>account.id\<close> from the same document.
\<close>

record SummaryResponse =
  s_networks :: "BlinkNetwork list"
  s_sync_modules :: "BlinkSyncModule list"
  s_cameras :: "BlinkDeviceResponse list"
  s_owls :: "BlinkDeviceResponse list"
  s_account_id :: int

record VideoResponse =
  v_camera_id :: int
  v_type :: string
  v_video_url :: string
  v_created_at :: int

record MotionEvent =
  video :: string
  image :: string
  time :: int

type_synonym headers = "(string \<times> string option) list"

section \<open>blink-device.ts\<close>

record BlinkDevice =
  dev_urls :: BlinkUrls
  dev_data :: BlinkDeviceResponse
  dev_thumbUrl :: string
  dev_clipUrl :: string
  dev_motion :: "MotionEvent option"
  dev_authHeader :: "headers option"
  dev_imageLink :: "string option"
  dev_armLink :: "string option"

text \<open>The constructor. \<open>_motion\<close> starts as the empty object, here \<open>None\<close>.\<close>

definition newBlinkDevice :: "BlinkDeviceResponse \<Rightarrow> BlinkUrls \<Rightarrow> headers option \<Rightarrow> BlinkDevice" where
  "newBlinkDevice data us authHeader =
     (let networkIdUrl = networkUrl us @ show_int (d_network_id data) in
      \<lparr> dev_urls = us,
        dev_data = data,
        dev_thumbUrl = baseUrl us @ d_thumbnail data @ ''.jpg'',
        dev_clipUrl = baseUrl us @ d_thumbnail data @ ''.mp4'',
        dev_motion = None,
        dev_authHeader = authHeader,
        dev_imageLink =
          (if d_type data = ''owl''
             then Some (armUrl us @ show_int (d_network_id data) @ ''/owls/''
                        @ show_int (d_id data) @ ''/thumbnail'')
           else if d_type data = ''doorbell''
             then Some (armUrl us @ show_int (d_network_id data) @ ''/doorbells/''
                        @ show_int (d_id data) @ ''/thumbnail'')
           else Some (networkIdUrl @ ''/camera/'' @ show_int (d_id data) @ ''/thumbnail'')),
        dev_armLink = Some (networkIdUrl @ ''/camera/'' @ show_int (d_id data) @ ''/'') \<rparr>)"

definition dev_id :: "BlinkDevice \<Rightarrow> int" where
  "dev_id d = d_id (dev_data d)"

definition thumbnail :: "BlinkDevice \<Rightarrow> string" where
  "thumbnail d = dev_thumbUrl d"

definition update :: "BlinkDeviceResponse \<Rightarrow> BlinkDevice \<Rightarrow> BlinkDevice" where
  "update values d =
     d\<lparr> dev_data := values,
        dev_thumbUrl := baseUrl (dev_urls d) @ d_thumbnail values @ ''.jpg'',
        dev_clipUrl := baseUrl (dev_urls d) @ d_thumbnail values @ ''.mp4'' \<rparr>"

section \<open>The world outside the controller\<close>

record Account =
  acc_account_id :: int
  acc_region :: "string option"
  acc_tier :: string
  account_verification_required :: bool
  client_verification_required :: bool
  acc_client_id :: int

record LoginResponse =
  account :: Account
  auth_token :: string

text \<open>
  \<open>blink-exceptions.ts\<close> is not among the sources; the two classes are used as tags
  around a message. One \<open>throw\<close> passes the response document instead of a message.
\<close>

datatype exn =
    BlinkException string
  | BlinkAuthenticationException string
  | BlinkAuthenticationExceptionData LoginResponse

datatype verb = GET | POST

record request =
  req_verb :: verb
  req_url :: string
  req_headers :: headers
  req_body :: "(string \<times> string) list"

text \<open>
  What the controller does to the outside, in order: requests of the transport, timers
  it sets (milliseconds), questions it asks on the terminal, and exceptions thrown where
  no caller receives them.
\<close>

datatype event =
    Request request
  | Timer nat
  | Question string
  | UnhandledRejection exn

text \<open>
  A transport call either throws (any status outside 200..299, or no response), carrying
  the text that \<open>JSON.stringify(error.response?.data)\<close> renders, or returns the document.
\<close>

datatype 'a reply = Failed string | Ok 'a

text \<open>
  The outcome of an asynchronous function: its promise is fulfilled, is rejected, or is
  never settled.
\<close>

datatype 'a outcome = Resolved 'a | Rejected exn | Pending

text \<open>
  The environment answers each request from the events so far and the request itself, by
  the kind of document the call site reads. \<open>random_index i\<close> is the \<open>i\<close>-th value of
  \<open>Math.floor(Math.random() * n)\<close>, reduced below \<open>n\<close> where it is used. \<open>answer\<close> is the
  line typed at the terminal, or \<open>None\<close> when no line ever arrives.
\<close>

record world =
  login_reply :: "event list \<Rightarrow> request \<Rightarrow> LoginResponse reply"
  pin_reply :: "event list \<Rightarrow> request \<Rightarrow> unit reply"
  home_reply :: "event list \<Rightarrow> request \<Rightarrow> SummaryResponse reply"
  videos_reply :: "event list \<Rightarrow> request \<Rightarrow> VideoResponse list reply"
  random_index :: "nat \<Rightarrow> nat"
  answer :: "event list \<Rightarrow> string option"

record runtime =
  trace :: "event list"
  draws :: nat

definition http :: "(event list \<Rightarrow> request \<Rightarrow> 'a reply) \<Rightarrow> request \<Rightarrow> runtime \<Rightarrow> 'a reply \<times> runtime" where
  "http oracle r rt = (oracle (trace rt) r, rt\<lparr>trace := trace rt @ [Request r]\<rparr>)"

definition emit :: "event \<Rightarrow> runtime \<Rightarrow> runtime" where
  "emit e rt = rt\<lparr>trace := trace rt @ [e]\<rparr>"

section \<open>guid.ts\<close>

definition charAt :: "string \<Rightarrow> nat \<Rightarrow> string" where
  "charAt s i = (if i < length s then [s ! i] else [])"

definition guid :: "world \<Rightarrow> nat \<Rightarrow> nat \<Rightarrow> string" where
  "guid W pos len =
     (let chars = ''abcdef0123456789'' in
      concat (map (\<lambda>i. charAt chars (random_index W (pos + i) mod length chars)) [0..<len]))"

section \<open>blink-camera-system.ts\<close>

record BlinkCameraSystemOptions =
  opt_auth2fa :: "bool option"
  opt_debug :: "bool option"
  opt_deviceName :: "string option"

record BlinkCameraSystem =
  username :: jsval
  password :: jsval
  token :: "string option"
  authHeader :: "headers option"
  networks :: "BlinkNetwork list"
  accountId :: "int option"
  region :: "string option"
  regionId :: "string option"
  host :: "string option"
  devices :: "BlinkDevice list"
  deviceId :: jsval
  auth2fa :: bool
  verificationTimeout :: nat
  debug :: bool
  deviceName :: string
  urls :: BlinkUrls

text \<open>
  The constructor. An option that is absent is \<open>None\<close>. The closing
  \<open>Object.assign(this, options)\<close> copies the options that are present onto the object
  under their own names, which gives \<open>debug\<close> and \<open>deviceName\<close> the values they already
  have. \<open>debug\<close> only switches console output, which is not modelled.
\<close>

definition new_BlinkCameraSystem ::
  "jsval \<Rightarrow> jsval \<Rightarrow> jsval \<Rightarrow> BlinkCameraSystemOptions \<Rightarrow> BlinkCameraSystem" where
  "new_BlinkCameraSystem u p dev options =
     \<lparr> username = u,
       password = p,
       token = None,
       authHeader = None,
       networks = [],
       accountId = None,
       region = None,
       regionId = None,
       host = None,
       devices = [],
       deviceId = dev,
       auth2fa = (case opt_auth2fa options of None \<Rightarrow> False | Some b \<Rightarrow> b),
       verificationTimeout = 1000 * 60,
       debug = (case opt_debug options of None \<Rightarrow> False | Some b \<Rightarrow> b),
       deviceName =
         (case opt_deviceName options of None \<Rightarrow> ''node-blink-camera-system'' | Some n \<Rightarrow> n),
       urls = \<lparr> baseUrl = [], networkUrl = [], armUrl = [], videoUrl = [], homeUrl = [] \<rparr> \<rparr>"

type_synonym state = "BlinkCameraSystem \<times> runtime"

subsection \<open>getSummary\<close>

text \<open>\<open>xs.find(p)\<close> is an object or \<open>undefined\<close>; as a filter condition it is its truthiness.\<close>

definition found :: "('a \<Rightarrow> bool) \<Rightarrow> 'a list \<Rightarrow> bool" where
  "found p xs = (case find p xs of None \<Rightarrow> False | Some x \<Rightarrow> True)"

definition getSummary :: "world \<Rightarrow> state \<Rightarrow> SummaryResponse outcome \<times> state" where
  "getSummary W st =
     (let (s, rt) = st in
      case authHeader s of
        None \<Rightarrow> (Rejected (BlinkException ''Authentication token must be set''), st)
      | Some h \<Rightarrow>
          (case http (home_reply W)
                  \<lparr> req_verb = GET, req_url = homeUrl (urls s), req_headers = h, req_body = [] \<rparr> rt of
             (Failed b, rt') \<Rightarrow>
               (Rejected (BlinkException (''Can'' @ [CHR 0x27] @ ''t retrieve system summary'')),
                (s, rt'))
           | (Ok summary, rt') \<Rightarrow>
               (Resolved
                  (summary
                     \<lparr> s_networks :=
                         filter (\<lambda>network. found (\<lambda>n. n_id n = n_id network) (networks s))
                           (s_networks summary),
                       s_sync_modules :=
                         filter (\<lambda>syncModule. found (\<lambda>n. n_id n = sm_network_id syncModule) (networks s))
                           (s_sync_modules summary),
                       s_cameras :=
                         filter (\<lambda>camera. found (\<lambda>n. n_id n = d_network_id camera) (networks s))
                           (s_cameras summary),
                       s_owls :=
                         filter (\<lambda>owl. found (\<lambda>n. n_id n = d_network_id owl) (networks s))
                           (s_owls summary) \<rparr>),
                (s, rt'))))"

subsection \<open>isOnline, isArmed\<close>

definition isOnline :: "world \<Rightarrow> int list \<Rightarrow> state \<Rightarrow> (int \<rightharpoonup> bool) outcome \<times> state" where
  "isOnline W networkIds st =
     (let nets = (if networkIds \<noteq> [] then networkIds else map n_id (networks (fst st))) in
      case getSummary W st of
        (Resolved summaries, st') \<Rightarrow>
          (Resolved
             (foldl (\<lambda>onlineStatus syncModule.
                       if sm_network_id syncModule \<in> set nets
                       then onlineStatus(sm_network_id syncModule \<mapsto> (sm_status syncModule = ''online''))
                       else onlineStatus)
                Map.empty (s_sync_modules summaries)),
           st')
      | (Rejected e, st') \<Rightarrow> (Rejected e, st')
      | (Pending, st') \<Rightarrow> (Pending, st'))"

definition isArmed :: "world \<Rightarrow> state \<Rightarrow> (int \<rightharpoonup> bool) outcome \<times> state" where
  "isArmed W st =
     (case getSummary W st of
        (Resolved summaries, st') \<Rightarrow>
          (let networkIds = map n_id (networks (fst st')) in
           (Resolved
              (foldl (\<lambda>result el.
                        if n_id el \<in> set networkIds then result(n_id el \<mapsto> n_armed el) else result)
                 Map.empty (s_networks summaries)),
            st'))
      | (Rejected e, st') \<Rightarrow> (Rejected e, st')
      | (Pending, st') \<Rightarrow> (Pending, st'))"

subsection \<open>getVideos, getLastMotions\<close>

text \<open>
  \<open>since\<close> is passed as its ISO text. The default is \<open>new Date(2008)\<close>, that is 2008
  milliseconds after the epoch.
\<close>

definition default_since :: string where
  "default_since = ''1970-01-01T00:00:02.008Z''"

definition getVideos :: "world \<Rightarrow> int \<Rightarrow> string \<Rightarrow> state \<Rightarrow> VideoResponse list outcome \<times> state" where
  "getVideos W page since st =
     (let (s, rt) = st in
      case http (videos_reply W)
             \<lparr> req_verb = GET,
               req_url = videoUrl (urls s) @ ''?since='' @ since @ ''&page='' @ show_int page,
               req_headers = (case authHeader s of None \<Rightarrow> [] | Some h \<Rightarrow> h),
               req_body = [] \<rparr> rt of
        (Failed b, rt') \<Rightarrow>
          (Rejected (BlinkException (''Can'' @ [CHR 0x27] @ ''t fetch videos'')), (s, rt'))
      | (Ok data, rt') \<Rightarrow> (Resolved data, (s, rt')))"

text \<open>The pattern of \<open>getLastMotions\<close> as the source writes it: \<open>/\.[^.]+$]/\<close>.\<close>

definition image_pattern :: "atom list" where
  "image_pattern = [Lit (CHR ''.''), PlusNot (CHR ''.''), EndOfInput, Lit (CHR '']'')]"

text \<open>\<open>camera.motion = m\<close> for the camera that \<open>find\<close> returned: the first with the id.\<close>

fun update_first :: "('a \<Rightarrow> bool) \<Rightarrow> ('a \<Rightarrow> 'a) \<Rightarrow> 'a list \<Rightarrow> 'a list" where
  "update_first p f [] = []"
| "update_first p f (x # xs) = (if p x then f x # xs else x # update_first p f xs)"

text \<open>
  The \<open>forEach\<close> over the videos. An exception leaves the loop; the devices changed so
  far stay changed.
\<close>

fun motions :: "string \<Rightarrow> VideoResponse list \<Rightarrow> (int \<rightharpoonup> MotionEvent) \<Rightarrow> BlinkDevice list
                \<Rightarrow> (exn + (int \<rightharpoonup> MotionEvent)) \<times> BlinkDevice list" where
  "motions base [] result devs = (Inr result, devs)"
| "motions base (v # vs) result devs =
     (let camera_id = v_camera_id v in
      case find (\<lambda>d. dev_id d = camera_id) devs of
        None \<Rightarrow> (Inl (BlinkException ''Camera not found''), devs)
      | Some camera \<Rightarrow>
          if v_type v = ''motion''
          then (let url = base @ v_video_url v;
                    m = \<lparr> video = url,
                          image = replace image_pattern ''.jpg'' url,
                          time = v_created_at v \<rparr>
                in motions base vs (result(camera_id \<mapsto> m))
                     (update_first (\<lambda>d. dev_id d = camera_id) (\<lambda>d. d\<lparr>dev_motion := Some m\<rparr>) devs))
          else motions base vs result devs)"

definition getLastMotions :: "world \<Rightarrow> state \<Rightarrow> (int \<rightharpoonup> MotionEvent) outcome \<times> state" where
  "getLastMotions W st =
     (case getVideos W 0 default_since st of
        (Resolved videos, (s, rt)) \<Rightarrow>
          (case motions (baseUrl (urls s)) videos Map.empty (devices s) of
             (Inl e, devs) \<Rightarrow> (Rejected e, (s\<lparr>devices := devs\<rparr>, rt))
           | (Inr result, devs) \<Rightarrow> (Resolved result, (s\<lparr>devices := devs\<rparr>, rt)))
      | (Rejected e, st') \<Rightarrow> (Rejected e, st')
      | (Pending, st') \<Rightarrow> (Pending, st'))"

subsection \<open>getCameras\<close>

fun findIndex :: "('a \<Rightarrow> bool) \<Rightarrow> 'a list \<Rightarrow> nat option" where
  "findIndex p [] = None"
| "findIndex p (x # xs) =
     (if p x then Some 0 else (case findIndex p xs of None \<Rightarrow> None | Some i \<Rightarrow> Some (Suc i)))"

text \<open>\<open>xs.splice(i, 1)\<close>.\<close>

definition splice1 :: "nat \<Rightarrow> 'a list \<Rightarrow> 'a list" where
  "splice1 i xs = take i xs @ drop (Suc i) xs"

text \<open>One round of the \<open>forEach\<close> over the descriptors.\<close>

definition addDevice :: "BlinkCameraSystem \<Rightarrow> BlinkDevice list \<Rightarrow> BlinkDeviceResponse \<Rightarrow> BlinkDevice list" where
  "addDevice s devs device =
     (let newDevice = newBlinkDevice (device\<lparr>d_region_id := regionId s\<rparr>) (urls s) (authHeader s) in
      (case findIndex (\<lambda>d. dev_id d = dev_id newDevice) devs of
         Some existingDeviceIndex \<Rightarrow> splice1 existingDeviceIndex devs
       | None \<Rightarrow> devs) @ [newDevice])"

definition getCameras :: "world \<Rightarrow> state \<Rightarrow> BlinkDevice list outcome \<times> state" where
  "getCameras W st =
     (case getSummary W st of
        (Resolved summaries, (s, rt)) \<Rightarrow>
          (let devs = foldl (addDevice s) (devices s) (s_cameras summaries @ s_owls summaries) in
           (Resolved devs, (s\<lparr>devices := devs\<rparr>, rt)))
      | (Rejected e, st') \<Rightarrow> (Rejected e, st')
      | (Pending, st') \<Rightarrow> (Pending, st'))"

subsection \<open>_setupWithToken, _getAuthToken\<close>

text \<open>
  \<open>_setupWithToken\<close> and the local function \<open>saveAuthResult\<close> of \<open>_getAuthToken\<close> have the
  same three assignments.
\<close>

definition saveAuthResult :: "constants \<Rightarrow> BlinkCameraSystem \<Rightarrow> BlinkCameraSystem" where
  "saveAuthResult K s =
     s\<lparr> host := Some (''rest-'' @ tpl_str (regionId s) @ ''.'' @ BLINK_URL K),
        authHeader := Some [(''token-auth'', token s)],
        urls := createBlinkUrls K (accountId s) (regionId s) \<rparr>"

definition setupWithToken :: "constants \<Rightarrow> BlinkCameraSystem \<Rightarrow> BlinkCameraSystem" where
  "setupWithToken K s =
     s\<lparr> host := Some (''rest-'' @ tpl_str (regionId s) @ ''.'' @ BLINK_URL K),
        authHeader := Some [(''token-auth'', token s)],
        urls := createBlinkUrls K (accountId s) (regionId s) \<rparr>"

text \<open>The four assignments that copy the login response into the controller.\<close>

definition captureAccount :: "LoginResponse \<Rightarrow> BlinkCameraSystem \<Rightarrow> BlinkCameraSystem" where
  "captureAccount response s =
     s\<lparr> regionId := Some (acc_tier (account response)),
        region := acc_region (account response),
        token := Some (auth_token response),
        accountId := Some (acc_account_id (account response)) \<rparr>"

definition loginData :: "BlinkCameraSystem \<Rightarrow> string \<Rightarrow> (string \<times> string) list" where
  "loginData s notificationKey =
     [ (''email'', str_of (username s)),
       (''password'', str_of (password s)),
       (''notification_key'', notificationKey),
       (''unique_id'', str_of (deviceId s)),
       (''app_version'', ''6.16.0''),
       (''client_name'', deviceName s),
       (''client_type'', ''android''),
       (''device_identifier'', str_of (deviceId s)),
       (''device_name'', deviceName s),
       (''os_version'', ''13.0.0''),
       (''reauth'', ''true'') ]"

text \<open>
  The login request. The notification key is a fresh \<open>guid\<close>, drawn from the random
  source at the position the run has reached.
\<close>

definition loginHeaders :: headers where
  "loginHeaders = [(''Content-Type'', Some ''application/json'')]"

definition loginRequest :: "constants \<Rightarrow> world \<Rightarrow> BlinkCameraSystem \<Rightarrow> runtime \<Rightarrow> request" where
  "loginRequest K W s rt =
     \<lparr> req_verb = POST,
       req_url = (if auth2fa s then LOGIN_URL_2FA K else LOGIN_URL K),
       req_headers = loginHeaders,
       req_body = loginData s (guid W (draws rt) (SIZE_NOTIFICATION_KEY K)) \<rparr>"

text \<open>
  The callback of \<open>rl.question\<close>, run with the line typed. It is an \<open>async\<close> function whose
  promise nobody holds: when the pin request fails, its exception is an unhandled rejection
  and the promise that \<open>_getAuthToken\<close> returned is never settled.
\<close>

definition questionText :: "BlinkCameraSystem \<Rightarrow> string" where
  "questionText s = ''Enter the verification code sent to '' @ str_of (username s) @ '': ''"

definition pinRequest :: "constants \<Rightarrow> LoginResponse \<Rightarrow> headers \<Rightarrow> string \<Rightarrow> request" where
  "pinRequest K response hdrs pin =
     (let acc = account response;
          us = createBlinkUrls K (Some (acc_account_id acc)) (Some (acc_tier acc));
          pinUrl = baseUrl us @ ''/api/v4/account/'' @ show_int (acc_account_id acc)
                   @ ''/client/'' @ show_int (acc_client_id acc) @ ''/pin/verify''
      in \<lparr> req_verb = POST, req_url = pinUrl, req_headers = hdrs, req_body = [(''pin'', pin)] \<rparr>)"

definition verifyPin ::
  "constants \<Rightarrow> world \<Rightarrow> LoginResponse \<Rightarrow> headers \<Rightarrow> string \<Rightarrow> state \<Rightarrow> jsval outcome \<times> state" where
  "verifyPin K W response hdrs pin st =
     (let (s, rt) = st;
          s1 = captureAccount response s;
          hdrs1 = hdrs @ [(''token-auth'', token s1)]
      in case http (pin_reply W) (pinRequest K response hdrs1 pin) rt of
           (Failed b, rt') \<Rightarrow>
             (Pending,
              (s1, emit (UnhandledRejection
                           (BlinkAuthenticationException
                              (''Authentication problem (verify response): '' @ b))) rt'))
         | (Ok verifyResponse, rt') \<Rightarrow> (Resolved (Bool True), (saveAuthResult K s1, rt')))"

text \<open>
  \<open>_getAuthToken(retries)\<close>. The retry calls the function again from a timer, and nothing
  bounds the number of calls for a start other than 0 or 1: the first argument is fuel, and
  \<open>None\<close> says that it ran out.
\<close>

fun getAuthToken ::
  "nat \<Rightarrow> constants \<Rightarrow> world \<Rightarrow> int \<Rightarrow> state \<Rightarrow> (jsval outcome \<times> state) option" where
  "getAuthToken 0 K W retries st = None"
| "getAuthToken (Suc fuel) K W retries st =
     (let (s, rt) = st in
      if \<not> is_string (username s)
        then Some (Rejected (BlinkAuthenticationException ''Username must be a string''), st)
      else if \<not> is_string (password s)
        then Some (Rejected (BlinkAuthenticationException ''Password must be a string''), st)
      else if \<not> is_string (deviceId s)
        then Some (Rejected (BlinkAuthenticationException ''Device ID must be a string''), st)
      else
        let rt0 = rt\<lparr>draws := draws rt + SIZE_NOTIFICATION_KEY K\<rparr>
        in case http (login_reply W) (loginRequest K W s rt) rt0 of
             (Failed b, rt1) \<Rightarrow>
               Some (Rejected (BlinkAuthenticationException
                                 (''Authentication problem (response): '' @ b)), (s, rt1))
           | (Ok response, rt1) \<Rightarrow>
               (let acc = account response in
                if account_verification_required acc \<or> client_verification_required acc
                then
                  (if \<not> auth2fa s
                   then
                     (if retries = 1
                      then Some (Rejected (BlinkAuthenticationException
                                   ''Authentication problem (retry): verification timeout''),
                                 (s, rt1))
                      else getAuthToken fuel K W (retries + 1)
                             (s, emit (Timer (verificationTimeout s)) rt1))
                   else
                     (let rt2 = emit (Question (questionText s)) rt1
                      in case answer W (trace rt2) of
                           None \<Rightarrow> Some (Pending, (s, rt2))
                         | Some pin \<Rightarrow> Some (verifyPin K W response loginHeaders pin (s, rt2))))
                else if \<not> truthy_str (acc_region acc)
                  then Some (Rejected (BlinkAuthenticationExceptionData response), (s, rt1))
                else Some (Resolved Undefined,
                           (saveAuthResult K (captureAccount response s), rt1))))"

subsection \<open>getIDs\<close>

text \<open>The \<open>forEach\<close> that pushes every matching network and remembers that one was found.\<close>

definition selectNetworks :: "jsval \<Rightarrow> BlinkNetwork list \<Rightarrow> BlinkNetwork list \<Rightarrow> bool \<times> BlinkNetwork list" where
  "selectNetworks name_or_id ns selected =
     foldl (\<lambda>(foundNetwork, nets) n.
              if loose_eq_num (n_id n) name_or_id \<or> loose_eq_str (n_name n) name_or_id
              then (True, nets @ [n]) else (foundNetwork, nets))
       (False, selected) ns"

definition getIDs :: "constants \<Rightarrow> world \<Rightarrow> jsval \<Rightarrow> state \<Rightarrow> unit outcome \<times> state" where
  "getIDs K W name_or_id st =
     (let (s, rt) = st in
      case authHeader s of
        None \<Rightarrow>
          (Rejected (BlinkException ''You have to be authenticated before calling this method''), st)
      | Some h \<Rightarrow>
          (case http (home_reply W)
                  \<lparr> req_verb = GET, req_url = homeUrl (urls s), req_headers = h, req_body = [] \<rparr> rt of
             (Failed b, rt') \<Rightarrow>
               (Rejected (BlinkException (''Can'' @ [CHR 0x27] @ ''t retrieve system status: '' @ b)),
                (s, rt'))
           | (Ok data, rt') \<Rightarrow>
               (let finish = (\<lambda>s1. let s2 = s1\<lparr>accountId := Some (s_account_id data)\<rparr> in
                                    s2\<lparr>urls := createBlinkUrls K (accountId s2) (regionId s2)\<rparr>)
                in if name_or_id \<noteq> Undefined
                   then (case selectNetworks name_or_id (s_networks data) (networks s) of
                           (foundNetwork, nets) \<Rightarrow>
                             if \<not> foundNetwork
                             then (Rejected (BlinkException
                                     (''No network found for '' @ str_of name_or_id)),
                                   (s\<lparr>networks := nets\<rparr>, rt'))
                             else (Resolved (), (finish (s\<lparr>networks := nets\<rparr>), rt')))
                   else if s_networks data = []
                     then (Rejected (BlinkException ''No networks found''), (s, rt'))
                   else (Resolved (), (finish (s\<lparr>networks := s_networks data\<rparr>), rt')))))"

subsection \<open>init\<close>

definition init :: "nat \<Rightarrow> constants \<Rightarrow> world \<Rightarrow> jsval \<Rightarrow> state \<Rightarrow> (unit outcome \<times> state) option" where
  "init fuel K W name_or_id st =
     (let (s, rt) = st in
      if \<not> ((truthy (username s) \<and> truthy (password s))
             \<or> (truthy_str (token s) \<and> truthy_str (regionId s)))
      then Some (Rejected (BlinkAuthenticationException
             ''(_username, _password) or (_token, _regionId) are required for system setup''), st)
      else
        (case (if truthy_str (token s)
               then Some (Resolved Undefined, (setupWithToken K s, rt))
               else getAuthToken fuel K W 0 st) of
           None \<Rightarrow> None
         | Some (Rejected e, st1) \<Rightarrow> Some (Rejected e, st1)
         | Some (Pending, st1) \<Rightarrow> Some (Pending, st1)
         | Some (Resolved v, st1) \<Rightarrow>
             (case getIDs K W name_or_id st1 of
                (Rejected e, st2) \<Rightarrow> Some (Rejected e, st2)
              | (Pending, st2) \<Rightarrow> Some (Pending, st2)
              | (Resolved u, st2) \<Rightarrow>
                  (case getCameras W st2 of
                     (Rejected e, st3) \<Rightarrow> Some (Rejected e, st3)
                   | (Pending, st3) \<Rightarrow> Some (Pending, st3)
                   | (Resolved devs, st3) \<Rightarrow> Some (Resolved (), st3)))))"

section \<open>Example worlds and controllers\<close>

text \<open>Concrete inputs at which the theorems below are instantiated.\<close>

definition example_K :: constants where
  "example_K = \<lparr> BLINK_URL = ''example.com'',
                 LOGIN_URL = ''https://rest-prod.example.com/login'',
                 LOGIN_URL_2FA = ''https://rest-prod.example.com/login2fa'',
                 SIZE_NOTIFICATION_KEY = 4 \<rparr>"

definition start :: runtime where
  "start = \<lparr> trace = [], draws = 0 \<rparr>"

definition no_options :: BlinkCameraSystemOptions where
  "no_options = \<lparr> opt_auth2fa = None, opt_debug = None, opt_deviceName = None \<rparr>"

definition home_net :: BlinkNetwork where
  "home_net = \<lparr> n_id = 1, n_name = ''Home'', n_armed = False \<rparr>"

definition cabin_net :: BlinkNetwork where
  "cabin_net = \<lparr> n_id = 2, n_name = ''Cabin'', n_armed = True \<rparr>"

definition camera5 :: BlinkDeviceResponse where
  "camera5 = \<lparr> d_id = 5, d_name = ''Porch'', d_type = ''camera'', d_network_id = 1,
               d_region_id = None, d_status = ''done'', d_enabled = True,
               d_thumbnail = ''/thumb/a'', d_signals = None, d_battery = 3,
               d_updated_at = 900 \<rparr>"

definition camera6 :: BlinkDeviceResponse where
  "camera6 = \<lparr> d_id = 6, d_name = ''Shed'', d_type = ''camera'', d_network_id = 2,
               d_region_id = None, d_status = ''done'', d_enabled = True,
               d_thumbnail = ''/thumb/c'', d_signals = None, d_battery = 3,
               d_updated_at = 900 \<rparr>"

definition verify_response :: LoginResponse where
  "verify_response =
     \<lparr> account = \<lparr> acc_account_id = 7, acc_region = Some ''eu'', acc_tier = ''u001'',
                     account_verification_required = False,
                     client_verification_required = True, acc_client_id = 9 \<rparr>,
       auth_token = ''tok'' \<rparr>"

text \<open>
  A world in which every login asks for verification, the pin request fails, the user
  types \<open>123456\<close>, the account has the networks Home and Cabin with one camera each, and
  camera 5 has a new thumbnail from the second home-screen request on.
\<close>

definition example_world :: world where
  "example_world =
     \<lparr> login_reply = (\<lambda>h r. Ok verify_response),
       pin_reply = (\<lambda>h r. Failed ''undefined''),
       home_reply = (\<lambda>h r. Ok \<lparr> s_networks = [home_net, cabin_net],
                                  s_sync_modules = [],
                                  s_cameras =
                                    [camera5\<lparr>d_thumbnail :=
                                               (if h = [] then ''/thumb/a'' else ''/thumb/b'')\<rparr>,
                                     camera6],
                                  s_owls = [],
                                  s_account_id = 7 \<rparr>),
       videos_reply = (\<lambda>h r. Ok [\<lparr> v_camera_id = 5, v_type = ''motion'',
                                     v_video_url = ''/media/1.mp4'', v_created_at = 1000 \<rparr>]),
       random_index = (\<lambda>i. i),
       answer = (\<lambda>h. Some ''123456'') \<rparr>"


definition fresh_system :: BlinkCameraSystem where
  "fresh_system = new_BlinkCameraSystem (Str ''user'') (Str ''pw'') (Str ''dev'') no_options"

definition twofa_system :: BlinkCameraSystem where
  "twofa_system =
     new_BlinkCameraSystem (Str ''user'') (Str ''pw'') (Str ''dev'') (no_options\<lparr>opt_auth2fa := Some True\<rparr>)"

definition blank_system :: BlinkCameraSystem where
  "blank_system = new_BlinkCameraSystem (Str []) (Str []) (Str []) no_options"

definition untyped_system :: BlinkCameraSystem where
  "untyped_system = new_BlinkCameraSystem Undefined (Str ''pw'') (Str ''dev'') no_options"

definition token_system :: BlinkCameraSystem where
  "token_system = fresh_system\<lparr> token := Some ''tok'', regionId := Some ''u001'' \<rparr>"

definition session_system :: BlinkCameraSystem where
  "session_system =
     fresh_system\<lparr> token := Some ''tok'', regionId := Some ''u001'', accountId := Some 7,
                   authHeader := Some [(''token-auth'', Some ''tok'')],
                   urls := createBlinkUrls example_K (Some 7) (Some ''u001'') \<rparr>"

definition motion_system :: BlinkCameraSystem where
  "motion_system =
     session_system\<lparr> devices := [newBlinkDevice camera5 (urls session_system)
                                    (authHeader session_system)] \<rparr>"

text \<open>The value of a resolved map at a key.\<close>

definition resolved_at :: "('k \<rightharpoonup> 'v) outcome \<times> state \<Rightarrow> 'k \<Rightarrow> 'v option" where
  "resolved_at r k = (case fst r of Resolved m \<Rightarrow> m k | Rejected e \<Rightarrow> None | Pending \<Rightarrow> None)"

text \<open>A controller with Home selected, and its state after one discovery of devices.\<close>

definition selected_system :: BlinkCameraSystem where
  "selected_system = session_system\<lparr> networks := [home_net] \<rparr>"

definition discovered_once :: state where
  "discovered_once = snd (getCameras example_world (selected_system, start))"

section \<open>Properties of the device record\<close>

text \<open>
  C9. \<open>update\<close> replaces the descriptor, derives the thumbnail and clip URLs again from the
  device's base URL and the new thumbnail path, and leaves the arm link, the image link,
  the auth header, the URLs and the cached motion event as they were.
\<close>

theorem update_frame:
  "dev_data (update values d) = values
   \<and> dev_thumbUrl (update values d) = baseUrl (dev_urls d) @ d_thumbnail values @ ''.jpg''
   \<and> dev_clipUrl (update values d) = baseUrl (dev_urls d) @ d_thumbnail values @ ''.mp4''
   \<and> dev_armLink (update values d) = dev_armLink d
   \<and> dev_imageLink (update values d) = dev_imageLink d
   \<and> dev_authHeader (update values d) = dev_authHeader d
   \<and> dev_urls (update values d) = dev_urls d
   \<and> dev_motion (update values d) = dev_motion d"
  by (simp add: update_def)

section \<open>Motion events\<close>

text \<open>
  After \<open>$\<close> nothing is left for the closing bracket of the pattern to match: the pattern
  matches no string, and \<open>replace\<close> returns every URL as it is.
\<close>

lemma match_here_end_lit: "match_here (EndOfInput # Lit c # r) s = None"
  by (cases s) simp_all

lemma match_more_end_lit: "match_more d (EndOfInput # Lit c # r) s = None"
  by (induction s) (simp_all add: match_here_end_lit)

lemma image_pattern_no_match: "match_here image_pattern s = None"
proof (cases s)
  case Nil
  then show ?thesis by (simp add: image_pattern_def)
next
  case (Cons x xs)
  then show ?thesis
    by (cases xs) (simp_all add: image_pattern_def match_more_end_lit)
qed

lemma replace_image_pattern: "replace image_pattern new s = s"
  by (induction s) (simp_all add: image_pattern_no_match)

text \<open>Without the bracket the pattern replaces the extension.\<close>

lemma replace_extension_pattern:
  "replace [Lit (CHR ''.''), PlusNot (CHR ''.''), EndOfInput] ''.jpg'' ''/media/1.mp4''
     = ''/media/1.jpg''"
  by simp

text \<open>
  C1. For the video entry \<open>/media/1.mp4\<close> of type \<open>motion\<close> for camera 5, created at 1000,
  and the base URL \<open>https://rest-u001.example.com\<close>, \<open>getLastMotions\<close> returns an event whose
  video is the base URL followed by the path. Its image is the same URL, still ending in
  \<open>.mp4\<close>: the extension is not replaced by \<open>.jpg\<close>.
\<close>

theorem getLastMotions_image_unchanged:
  "resolved_at (getLastMotions example_world (motion_system, start)) 5 =
     Some \<lparr> video = ''https://rest-u001.example.com/media/1.mp4'',
            image = ''https://rest-u001.example.com/media/1.mp4'',
            time = 1000 \<rparr>"
  by (simp add: resolved_at_def getLastMotions_def getVideos_def http_def example_world_def
      motion_system_def session_system_def fresh_system_def new_BlinkCameraSystem_def
      no_options_def example_K_def camera5_def start_def createBlinkUrls_def tpl_str_def
      tpl_num_def newBlinkDevice_def dev_id_def replace_image_pattern default_since_def Let_def
      del: replace.simps)

section \<open>The summary\<close>

lemma found_iff: "found p xs \<longleftrightarrow> (\<exists>x \<in> set xs. p x)"
  by (induction xs) (auto simp: found_def)

lemma found_net: "found (\<lambda>n. n_id n = i) ns \<longleftrightarrow> i \<in> n_id ` set ns"
  by (auto simp: found_iff)

text \<open>
  C6. When the home-screen request succeeds, \<open>getSummary\<close> resolves with the document in
  which the networks, sync modules, cameras and owls are those of the response whose
  network id is the id of a selected network, in the order of the response; so every entry
  returned belongs to a selected network.
\<close>

theorem getSummary_filtered:
  assumes "authHeader s = Some h"
    and "home_reply W (trace rt)
           \<lparr> req_verb = GET, req_url = homeUrl (urls s), req_headers = h, req_body = [] \<rparr> = Ok data"
  shows "\<exists>summary st'. getSummary W (s, rt) = (Resolved summary, st')
      \<and> s_networks summary = filter (\<lambda>n. n_id n \<in> n_id ` set (networks s)) (s_networks data)
      \<and> s_sync_modules summary =
          filter (\<lambda>m. sm_network_id m \<in> n_id ` set (networks s)) (s_sync_modules data)
      \<and> s_cameras summary =
          filter (\<lambda>c. d_network_id c \<in> n_id ` set (networks s)) (s_cameras data)
      \<and> s_owls summary = filter (\<lambda>c. d_network_id c \<in> n_id ` set (networks s)) (s_owls data)
      \<and> (\<forall>n \<in> set (s_networks summary). n_id n \<in> n_id ` set (networks s))
      \<and> (\<forall>m \<in> set (s_sync_modules summary). sm_network_id m \<in> n_id ` set (networks s))
      \<and> (\<forall>c \<in> set (s_cameras summary). d_network_id c \<in> n_id ` set (networks s))
      \<and> (\<forall>c \<in> set (s_owls summary). d_network_id c \<in> n_id ` set (networks s))"
  using assms by (auto simp: getSummary_def http_def found_net)

text \<open>
  With the network Home (id 1) selected and a response that has camera 5 on network 1 and
  camera 6 on network 2, the summary has camera 5 only.
\<close>

theorem getSummary_filtered_witness:
  "authHeader (session_system\<lparr>networks := [home_net]\<rparr>) = Some [(''token-auth'', Some ''tok'')]
   \<and> (\<exists>summary st'.
         getSummary example_world (session_system\<lparr>networks := [home_net]\<rparr>, start)
           = (Resolved summary, st')
         \<and> s_cameras summary = [camera5]
         \<and> s_networks summary = [home_net])"
proof -
  let ?s = "session_system\<lparr>networks := [home_net]\<rparr>"
  let ?h = "[(''token-auth'', Some ''tok'')]"
  let ?data = "\<lparr> s_networks = [home_net, cabin_net], s_sync_modules = [],
                 s_cameras = [camera5, camera6], s_owls = [], s_account_id = 7 \<rparr>"
  have h1: "authHeader ?s = Some ?h"
    by (simp add: session_system_def)
  have h2: "home_reply example_world (trace start)
              \<lparr> req_verb = GET, req_url = homeUrl (urls ?s), req_headers = ?h, req_body = [] \<rparr>
            = Ok ?data"
    by (simp add: example_world_def start_def camera5_def)
  from getSummary_filtered [OF h1 h2] h1 show ?thesis
    by (auto simp: session_system_def home_net_def cabin_net_def camera5_def camera6_def)
qed

section \<open>Operations without a session\<close>

text \<open>
  C3, as the code has it. With no auth header, \<open>getSummary\<close>, \<open>getIDs\<close>, and the operations
  that start with the summary (\<open>getCameras\<close>, \<open>isOnline\<close>, \<open>isArmed\<close>) are rejected with a
  \<open>BlinkException\<close> and leave the controller and the trace as they were: no request is
  issued. \<open>getVideos\<close> has no such check: it issues its request, with an empty header map.
\<close>

theorem no_session_fail_fast:
  assumes "authHeader s = None"
  shows "getSummary W (s, rt)
           = (Rejected (BlinkException ''Authentication token must be set''), (s, rt))
       \<and> getIDs K W name_or_id (s, rt)
           = (Rejected (BlinkException ''You have to be authenticated before calling this method''),
              (s, rt))
       \<and> getCameras W (s, rt)
           = (Rejected (BlinkException ''Authentication token must be set''), (s, rt))
       \<and> isOnline W networkIds (s, rt)
           = (Rejected (BlinkException ''Authentication token must be set''), (s, rt))
       \<and> isArmed W (s, rt)
           = (Rejected (BlinkException ''Authentication token must be set''), (s, rt))
       \<and> trace (snd (snd (getVideos W page since (s, rt))))
           = trace rt @ [Request \<lparr> req_verb = GET,
                                   req_url = videoUrl (urls s) @ ''?since='' @ since
                                             @ ''&page='' @ show_int page,
                                   req_headers = [], req_body = [] \<rparr>]"
  using assms
  by (auto simp: getSummary_def getIDs_def getCameras_def isOnline_def isArmed_def getVideos_def
      http_def split: reply.splits)

theorem no_session_fail_fast_witness:
  "authHeader fresh_system = None
   \<and> getSummary example_world (fresh_system, start)
       = (Rejected (BlinkException ''Authentication token must be set''), (fresh_system, start))
   \<and> getIDs example_K example_world Undefined (fresh_system, start)
       = (Rejected (BlinkException ''You have to be authenticated before calling this method''),
          (fresh_system, start))
   \<and> trace (snd (snd (getVideos example_world 0 default_since (fresh_system, start))))
       = [Request \<lparr> req_verb = GET, req_url = ''?since=1970-01-01T00:00:02.008Z&page=0'',
                     req_headers = [], req_body = [] \<rparr>]"
proof -
  have h: "authHeader fresh_system = None"
    by (simp add: fresh_system_def new_BlinkCameraSystem_def)
  from no_session_fail_fast [OF h, of example_world start example_K Undefined "[]" 0 default_since]
    h show ?thesis
    by (simp add: fresh_system_def new_BlinkCameraSystem_def start_def default_since_def
        show_int_def)
qed

text \<open>
  On a controller as constructed, \<open>getVideos\<close> does not fail: it sends one request without
  headers and resolves with the listing.
\<close>

theorem getVideos_no_session_counterexample:
  "getVideos example_world 0 default_since (fresh_system, start)
     = (Resolved [\<lparr> v_camera_id = 5, v_type = ''motion'', v_video_url = ''/media/1.mp4'',
                    v_created_at = 1000 \<rparr>],
        (fresh_system,
         \<lparr> trace = [Request \<lparr> req_verb = GET,
                               req_url = ''?since=1970-01-01T00:00:02.008Z&page=0'',
                               req_headers = [], req_body = [] \<rparr>],
           draws = 0 \<rparr>))"
  by (simp add: getVideos_def http_def example_world_def fresh_system_def
      new_BlinkCameraSystem_def start_def default_since_def show_int_def)

section \<open>Login\<close>

text \<open>
  C4, as the code has it. When the username, the password or the device id is not of type
  string, \<open>_getAuthToken\<close> is rejected with a \<open>BlinkAuthenticationException\<close> and leaves the
  controller and the trace as they were: no request is issued.
\<close>

theorem getAuthToken_requires_strings:
  assumes "\<not> is_string (username s) \<or> \<not> is_string (password s) \<or> \<not> is_string (deviceId s)"
  shows "\<exists>msg. getAuthToken (Suc fuel) K W retries (s, rt)
               = Some (Rejected (BlinkAuthenticationException msg), (s, rt))"
  using assms by auto

theorem getAuthToken_requires_strings_witness:
  "\<not> is_string (username untyped_system)
   \<and> getAuthToken (Suc 0) example_K example_world 0 (untyped_system, start)
       = Some (Rejected (BlinkAuthenticationException ''Username must be a string''),
               (untyped_system, start))"
proof -
  have h: "\<not> is_string (username untyped_system) \<or> \<not> is_string (password untyped_system)
           \<or> \<not> is_string (deviceId untyped_system)"
    by (simp add: untyped_system_def new_BlinkCameraSystem_def)
  from getAuthToken_requires_strings [OF h, of 0 example_K example_world 0 start] show ?thesis
    by (simp add: untyped_system_def new_BlinkCameraSystem_def)
qed

text \<open>
  With the empty string as username, password and device id, \<open>_getAuthToken\<close> sends the
  login request (and, verification being asked for, sends it again after the timer).
\<close>

theorem getAuthToken_empty_strings_counterexample:
  "map_option (\<lambda>r. trace (snd (snd r)))
     (getAuthToken (Suc (Suc 0)) example_K example_world 0 (blank_system, start))
   = Some [Request \<lparr> req_verb = POST, req_url = ''https://rest-prod.example.com/login'',
                     req_headers = [(''Content-Type'', Some ''application/json'')],
                     req_body =
                       [(''email'', []), (''password'', []), (''notification_key'', ''abcd''),
                        (''unique_id'', []), (''app_version'', ''6.16.0''),
                        (''client_name'', ''node-blink-camera-system''),
                        (''client_type'', ''android''), (''device_identifier'', []),
                        (''device_name'', ''node-blink-camera-system''),
                        (''os_version'', ''13.0.0''), (''reauth'', ''true'')] \<rparr>,
           Timer 60000,
           Request \<lparr> req_verb = POST, req_url = ''https://rest-prod.example.com/login'',
                     req_headers = [(''Content-Type'', Some ''application/json'')],
                     req_body =
                       [(''email'', []), (''password'', []), (''notification_key'', ''ef01''),
                        (''unique_id'', []), (''app_version'', ''6.16.0''),
                        (''client_name'', ''node-blink-camera-system''),
                        (''client_type'', ''android''), (''device_identifier'', []),
                        (''device_name'', ''node-blink-camera-system''),
                        (''os_version'', ''13.0.0''), (''reauth'', ''true'')] \<rparr>]"
  by (simp add: http_def emit_def loginRequest_def loginHeaders_def loginData_def guid_def
      charAt_def example_world_def verify_response_def blank_system_def
      new_BlinkCameraSystem_def no_options_def example_K_def start_def upt_rec)

text \<open>One call of \<open>_getAuthToken\<close> without 2FA: the call that retries, and the last call.\<close>

lemma login_step_retry:
  assumes "is_string (username s)" and "is_string (password s)" and "is_string (deviceId s)"
    and "\<not> auth2fa s"
    and "login_reply W (trace rt) (loginRequest K W s rt) = Ok r1"
    and "account_verification_required (account r1) \<or> client_verification_required (account r1)"
    and "retries \<noteq> 1"
  shows "getAuthToken (Suc fuel) K W retries (s, rt)
         = getAuthToken fuel K W (retries + 1)
             (s, rt\<lparr> trace := trace rt @ [Request (loginRequest K W s rt),
                                          Timer (verificationTimeout s)],
                     draws := draws rt + SIZE_NOTIFICATION_KEY K \<rparr>)"
  using assms by (cases rt) (simp add: http_def emit_def)

lemma login_step_last:
  assumes "is_string (username s)" and "is_string (password s)" and "is_string (deviceId s)"
    and "\<not> auth2fa s"
  shows "(\<exists>out s'. getAuthToken (Suc fuel) K W 1 (s, rt)
                    = Some (out, (s', rt\<lparr> trace := trace rt @ [Request (loginRequest K W s rt)],
                                         draws := draws rt + SIZE_NOTIFICATION_KEY K \<rparr>)))
       \<and> (\<forall>r2. login_reply W (trace rt) (loginRequest K W s rt) = Ok r2
                \<and> (account_verification_required (account r2)
                   \<or> client_verification_required (account r2))
             \<longrightarrow> getAuthToken (Suc fuel) K W 1 (s, rt)
                   = Some (Rejected (BlinkAuthenticationException
                                       ''Authentication problem (retry): verification timeout''),
                           (s, rt\<lparr> trace := trace rt @ [Request (loginRequest K W s rt)],
                                   draws := draws rt + SIZE_NOTIFICATION_KEY K \<rparr>)))"
  using assms
  by (cases rt; cases "login_reply W (trace rt) (loginRequest K W s rt)")
     (simp_all add: http_def Let_def)

text \<open>
  C5. Without 2FA, when the first login response asks for verification, \<open>_getAuthToken\<close>
  sets one timer with the configured delay and sends the login request once more; the run
  ends there, with two login requests and one timer in the trace. When the second response
  asks for verification too, the outcome is a rejection with a
  \<open>BlinkAuthenticationException\<close> (verification timeout), and the controller is unchanged.
\<close>

theorem getAuthToken_one_retry:
  assumes "is_string (username s)" and "is_string (password s)" and "is_string (deviceId s)"
    and "\<not> auth2fa s"
    and "login_reply W (trace rt) (loginRequest K W s rt) = Ok r1"
    and "account_verification_required (account r1) \<or> client_verification_required (account r1)"
  shows
    "let req1 = loginRequest K W s rt;
         rt1 = rt\<lparr> trace := trace rt @ [Request req1, Timer (verificationTimeout s)],
                   draws := draws rt + SIZE_NOTIFICATION_KEY K \<rparr>;
         req2 = loginRequest K W s rt1;
         rt2 = rt1\<lparr> trace := trace rt1 @ [Request req2],
                    draws := draws rt1 + SIZE_NOTIFICATION_KEY K \<rparr>
     in (\<exists>out s'. getAuthToken (Suc (Suc fuel)) K W 0 (s, rt) = Some (out, (s', rt2)))
        \<and> (\<forall>r2. login_reply W (trace rt1) req2 = Ok r2
                 \<and> (account_verification_required (account r2)
                    \<or> client_verification_required (account r2))
              \<longrightarrow> getAuthToken (Suc (Suc fuel)) K W 0 (s, rt)
                    = Some (Rejected (BlinkAuthenticationException
                                        ''Authentication problem (retry): verification timeout''),
                            (s, rt2)))"
proof -
  define rt1 where "rt1 = rt\<lparr> trace := trace rt @ [Request (loginRequest K W s rt),
                                                   Timer (verificationTimeout s)],
                              draws := draws rt + SIZE_NOTIFICATION_KEY K \<rparr>"
  have first: "getAuthToken (Suc (Suc fuel)) K W 0 (s, rt) = getAuthToken (Suc fuel) K W 1 (s, rt1)"
    using login_step_retry [OF assms, of 0 "Suc fuel"] by (simp add: rt1_def del: getAuthToken.simps)
  from first login_step_last [OF assms(1-4), of fuel K W rt1] show ?thesis
    unfolding Let_def rt1_def [symmetric] by (simp del: getAuthToken.simps)
qed

theorem getAuthToken_one_retry_witness:
  "is_string (username fresh_system) \<and> is_string (password fresh_system)
   \<and> is_string (deviceId fresh_system) \<and> \<not> auth2fa fresh_system
   \<and> login_reply example_world (trace start)
        (loginRequest example_K example_world fresh_system start) = Ok verify_response
   \<and> client_verification_required (account verify_response)
   \<and> map_option (\<lambda>r. (fst r, map (\<lambda>e. case e of Request q \<Rightarrow> req_url q | Timer n \<Rightarrow> ''timer''
                                         | Question q \<Rightarrow> q | UnhandledRejection x \<Rightarrow> ''unhandled'')
                               (trace (snd (snd r)))))
        (getAuthToken (Suc (Suc 0)) example_K example_world 0 (fresh_system, start))
      = Some (Rejected (BlinkAuthenticationException
                          ''Authentication problem (retry): verification timeout''),
              [''https://rest-prod.example.com/login'', ''timer'',
               ''https://rest-prod.example.com/login''])"
proof -
  have h1: "is_string (username fresh_system)" and h2: "is_string (password fresh_system)"
    and h3: "is_string (deviceId fresh_system)" and h4: "\<not> auth2fa fresh_system"
    by (simp_all add: fresh_system_def new_BlinkCameraSystem_def no_options_def)
  have h5: "login_reply example_world (trace start)
              (loginRequest example_K example_world fresh_system start) = Ok verify_response"
    by (simp add: example_world_def)
  have h6: "account_verification_required (account verify_response)
            \<or> client_verification_required (account verify_response)"
    by (simp add: verify_response_def)
  have h7: "login_reply example_world h r = Ok verify_response" for h r
    by (simp add: example_world_def)
  from getAuthToken_one_retry [OF h1 h2 h3 h4 h5 h6, of 0] h7 h6
  have "getAuthToken (Suc (Suc 0)) example_K example_world 0 (fresh_system, start)
        = Some (Rejected (BlinkAuthenticationException
                            ''Authentication problem (retry): verification timeout''),
                (fresh_system,
                 \<lparr> trace =
                     [Request (loginRequest example_K example_world fresh_system start),
                      Timer (verificationTimeout fresh_system),
                      Request (loginRequest example_K example_world fresh_system
                                 \<lparr> trace =
                                     [Request (loginRequest example_K example_world
                                                 fresh_system start),
                                      Timer (verificationTimeout fresh_system)],
                                   draws = SIZE_NOTIFICATION_KEY example_K \<rparr>)],
                   draws = SIZE_NOTIFICATION_KEY example_K + SIZE_NOTIFICATION_KEY example_K \<rparr>))"
    by (simp add: Let_def start_def del: getAuthToken.simps)
  with h1 h2 h3 h4 h5 h6 show ?thesis
    by (simp add: loginRequest_def fresh_system_def new_BlinkCameraSystem_def no_options_def
        example_K_def verify_response_def del: getAuthToken.simps)
qed

text \<open>
  C2, as the code has it. In the 2FA path the callback copies the token, the account id,
  the region and the region tier of the login response into the controller before it sends
  the pin. When the pin request fails, these four fields keep the values of the response;
  the auth header, the host and the URLs are what they were before the call.
\<close>

theorem pin_failure_session:
  assumes "is_string (username s)" and "is_string (password s)" and "is_string (deviceId s)"
    and "auth2fa s"
    and "login_reply W (trace rt) (loginRequest K W s rt) = Ok response"
    and "account_verification_required (account response)
         \<or> client_verification_required (account response)"
    and "answer W (trace rt @ [Request (loginRequest K W s rt), Question (questionText s)])
         = Some pin"
    and "pin_reply W (trace rt @ [Request (loginRequest K W s rt), Question (questionText s)])
           (pinRequest K response (loginHeaders @ [(''token-auth'', Some (auth_token response))]) pin)
         = Failed b"
  shows "\<exists>out s' rt'. getAuthToken (Suc fuel) K W retries (s, rt) = Some (out, (s', rt'))
      \<and> token s' = Some (auth_token response)
      \<and> accountId s' = Some (acc_account_id (account response))
      \<and> region s' = acc_region (account response)
      \<and> regionId s' = Some (acc_tier (account response))
      \<and> authHeader s' = authHeader s \<and> host s' = host s \<and> urls s' = urls s"
  using assms
  by (simp add: http_def emit_def verifyPin_def captureAccount_def Let_def)

theorem pin_failure_session_witness:
  "is_string (username twofa_system) \<and> is_string (password twofa_system)
   \<and> is_string (deviceId twofa_system) \<and> auth2fa twofa_system
   \<and> login_reply example_world (trace start)
        (loginRequest example_K example_world twofa_system start) = Ok verify_response
   \<and> client_verification_required (account verify_response)
   \<and> answer example_world
        (trace start @ [Request (loginRequest example_K example_world twofa_system start),
                        Question (questionText twofa_system)]) = Some ''123456''
   \<and> pin_reply example_world
        (trace start @ [Request (loginRequest example_K example_world twofa_system start),
                        Question (questionText twofa_system)])
        (pinRequest example_K verify_response
           (loginHeaders @ [(''token-auth'', Some (auth_token verify_response))]) ''123456'')
      = Failed ''undefined''
   \<and> (\<exists>out s' rt'. getAuthToken (Suc 0) example_K example_world 0 (twofa_system, start)
                   = Some (out, (s', rt'))
        \<and> token s' = Some ''tok'' \<and> accountId s' = Some 7 \<and> region s' = Some ''eu''
        \<and> regionId s' = Some ''u001'' \<and> authHeader s' = None \<and> host s' = None
        \<and> urls s' = \<lparr> baseUrl = [], networkUrl = [], armUrl = [], videoUrl = [],
                       homeUrl = [] \<rparr>)"
proof -
  have h1: "is_string (username twofa_system)" and h2: "is_string (password twofa_system)"
    and h3: "is_string (deviceId twofa_system)" and h4: "auth2fa twofa_system"
    by (simp_all add: twofa_system_def new_BlinkCameraSystem_def no_options_def)
  have h5: "login_reply example_world (trace start)
              (loginRequest example_K example_world twofa_system start) = Ok verify_response"
    by (simp add: example_world_def)
  have h6: "account_verification_required (account verify_response)
            \<or> client_verification_required (account verify_response)"
    by (simp add: verify_response_def)
  have h7: "answer example_world
              (trace start @ [Request (loginRequest example_K example_world twofa_system start),
                              Question (questionText twofa_system)]) = Some ''123456''"
    by (simp add: example_world_def)
  have h8: "pin_reply example_world
              (trace start @ [Request (loginRequest example_K example_world twofa_system start),
                              Question (questionText twofa_system)])
              (pinRequest example_K verify_response
                 (loginHeaders @ [(''token-auth'', Some (auth_token verify_response))]) ''123456'')
            = Failed ''undefined''"
    by (simp add: example_world_def)
  have fields: "authHeader twofa_system = None" "host twofa_system = None"
    "urls twofa_system = \<lparr> baseUrl = [], networkUrl = [], armUrl = [], videoUrl = [],
                            homeUrl = [] \<rparr>"
    "auth_token verify_response = ''tok''" "acc_account_id (account verify_response) = 7"
    "acc_region (account verify_response) = Some ''eu''"
    "acc_tier (account verify_response) = ''u001''"
    "client_verification_required (account verify_response)"
    by (simp_all add: twofa_system_def new_BlinkCameraSystem_def verify_response_def)
  from pin_failure_session [OF h1 h2 h3 h4 h5 h6 h7 h8, of 0 0]
  show ?thesis
    using h1 h2 h3 h4 h5 h7 h8 by (simp only: fields simp_thms)
qed

text \<open>
  A run of the 2FA path in which the pin request fails: the promise stays pending, and the
  controller holds the token and the account id of the login response with no auth header.
\<close>

theorem pin_failure_counterexample:
  "map_option (\<lambda>r. (fst r, token (fst (snd r)), accountId (fst (snd r)), region (fst (snd r)),
                     regionId (fst (snd r)), authHeader (fst (snd r)), host (fst (snd r))))
     (getAuthToken (Suc 0) example_K example_world 0 (twofa_system, start))
   = Some (Pending, Some ''tok'', Some 7, Some ''eu'', Some ''u001'', None, None)"
  by (simp add: http_def emit_def verifyPin_def captureAccount_def Let_def example_world_def
      twofa_system_def new_BlinkCameraSystem_def no_options_def verify_response_def start_def)

section \<open>Network discovery\<close>








section \<open>Setup with an existing token\<close>

lemma getIDs_trace:
  assumes "authHeader s = Some h"
  shows "\<exists>out s'. getIDs K W v (s, rt)
           = (out, (s', rt\<lparr>trace := trace rt @ [Request \<lparr> req_verb = GET, req_url = homeUrl (urls s),
                                                       req_headers = h, req_body = [] \<rparr>]\<rparr>))"
  using assms
  by (auto simp: getIDs_def http_def Let_def split: reply.splits prod.splits)

lemma getSummary_trace:
  "\<exists>out evs. getSummary W (s, rt) = (out, (s, rt\<lparr>trace := trace rt @ evs\<rparr>))"
proof (cases "authHeader s")
  case None
  then have "getSummary W (s, rt) = (Rejected (BlinkException ''Authentication token must be set''),
                                     (s, rt\<lparr>trace := trace rt @ []\<rparr>))"
    by (simp add: getSummary_def)
  then show ?thesis by blast
next
  case (Some h)
  then have "\<exists>out. getSummary W (s, rt)
               = (out, (s, rt\<lparr>trace := trace rt @ [Request \<lparr> req_verb = GET,
                                                            req_url = homeUrl (urls s),
                                                            req_headers = h, req_body = [] \<rparr>]\<rparr>))"
    by (auto simp: getSummary_def http_def split: reply.splits)
  then show ?thesis by blast
qed

lemma getCameras_trace:
  "\<exists>out s' evs. getCameras W (s, rt) = (out, (s', rt\<lparr>trace := trace rt @ evs\<rparr>))"
proof -
  obtain out evs where "getSummary W (s, rt) = (out, (s, rt\<lparr>trace := trace rt @ evs\<rparr>))"
    using getSummary_trace by blast
  then show ?thesis
    by (cases out) (auto simp: getCameras_def Let_def)
qed

text \<open>
  C10. When the account id is still \<open>null\<close>, the URLs that \<open>_setupWithToken\<close> derives have
  the word \<open>null\<close> where the account id belongs, and the account id stays \<open>null\<close>. In the
  token path of \<open>init\<close> the first event is the home-screen request of \<open>getIDs\<close>, sent to
  that URL with the token as header. When \<open>getIDs\<close> resolves, the account id is the one of
  the response and the URLs are derived from it.
\<close>

theorem token_setup_null_account:
  assumes "accountId s = None"
  shows
    "let base = ''https://rest-'' @ tpl_str (regionId s) @ ''.'' @ BLINK_URL K;
         us = urls (setupWithToken K s)
     in accountId (setupWithToken K s) = None
        \<and> armUrl us = base @ ''/api/v1/accounts/null/networks/''
        \<and> videoUrl us = base @ ''/api/v1/accounts/null/media/changed''
        \<and> homeUrl us = base @ ''/api/v3/accounts/null/homescreen''
        \<and> (truthy_str (token s) \<and> truthy_str (regionId s)
            \<longrightarrow> (\<exists>out s' evs. init fuel K W name_or_id (s, rt)
                    = Some (out, (s', rt\<lparr>trace := trace rt
                          @ Request \<lparr> req_verb = GET,
                                      req_url = base @ ''/api/v3/accounts/null/homescreen'',
                                      req_headers = [(''token-auth'', token s)],
                                      req_body = [] \<rparr> # evs\<rparr>))))
        \<and> (\<forall>s' rt'. getIDs K W name_or_id (setupWithToken K s, rt) = (Resolved (), (s', rt'))
              \<longrightarrow> (\<exists>i. accountId s' = Some i
                        \<and> urls s' = createBlinkUrls K (Some i) (regionId s)))"
proof -
  define base where "base = ''https://rest-'' @ tpl_str (regionId s) @ ''.'' @ BLINK_URL K"
  define s0 where "s0 = setupWithToken K s"
  define req where "req = Request \<lparr> req_verb = GET,
                             req_url = base @ ''/api/v3/accounts/null/homescreen'',
                             req_headers = [(''token-auth'', token s)], req_body = [] \<rparr>"
  have acc: "accountId s0 = None"
    using assms by (simp add: s0_def setupWithToken_def)
  have us: "armUrl (urls s0) = base @ ''/api/v1/accounts/null/networks/''"
    "videoUrl (urls s0) = base @ ''/api/v1/accounts/null/media/changed''"
    "homeUrl (urls s0) = base @ ''/api/v3/accounts/null/homescreen''"
    using assms
    by (simp_all add: s0_def setupWithToken_def createBlinkUrls_def tpl_num_def base_def Let_def)
  have hdr: "authHeader s0 = Some [(''token-auth'', token s)]"
    by (simp add: s0_def setupWithToken_def)
  have run: "\<exists>out s' evs. init fuel K W name_or_id (s, rt)
               = Some (out, (s', rt\<lparr>trace := trace rt @ req # evs\<rparr>))"
    if t: "truthy_str (token s)" and r: "truthy_str (regionId s)"
  proof -
    obtain o1 s1 where ids: "getIDs K W name_or_id (s0, rt)
                              = (o1, (s1, rt\<lparr>trace := trace rt @ [req]\<rparr>))"
      using getIDs_trace [OF hdr, of K W name_or_id rt] us(3) by (auto simp: req_def)
    show ?thesis
    proof (cases o1)
      case (Resolved u)
      obtain o2 s2 evs where "getCameras W (s1, rt\<lparr>trace := trace rt @ [req]\<rparr>)
                               = (o2, (s2, rt\<lparr>trace := trace rt @ req # evs\<rparr>))"
        using getCameras_trace [of W s1 "rt\<lparr>trace := trace rt @ [req]\<rparr>"] by auto
      with t r ids Resolved show ?thesis
        by (cases o2) (auto simp: init_def s0_def)
    next
      case (Rejected e)
      with t r ids have "init fuel K W name_or_id (s, rt)
                          = Some (Rejected e, (s1, rt\<lparr>trace := trace rt @ req # []\<rparr>))"
        by (simp add: init_def s0_def)
      then show ?thesis by blast
    next
      case Pending
      with t r ids have "init fuel K W name_or_id (s, rt)
                          = Some (Pending, (s1, rt\<lparr>trace := trace rt @ req # []\<rparr>))"
        by (simp add: init_def s0_def)
      then show ?thesis by blast
    qed
  qed
  have after: "\<exists>i. accountId s' = Some i \<and> urls s' = createBlinkUrls K (Some i) (regionId s)"
    if "getIDs K W name_or_id (s0, rt) = (Resolved (), (s', rt'))" for s' rt'
    using that hdr
    by (auto simp: getIDs_def http_def Let_def s0_def setupWithToken_def
        split: reply.splits prod.splits if_splits)
  from acc us run after show ?thesis
    unfolding Let_def base_def [symmetric] s0_def [symmetric] req_def [symmetric]
    by blast
qed

theorem token_setup_null_account_witness:
  "accountId token_system = None
   \<and> truthy_str (token token_system) \<and> truthy_str (regionId token_system)
   \<and> homeUrl (urls (setupWithToken example_K token_system))
       = ''https://rest-u001.example.com/api/v3/accounts/null/homescreen''
   \<and> armUrl (urls (setupWithToken example_K token_system))
       = ''https://rest-u001.example.com/api/v1/accounts/null/networks/''
   \<and> videoUrl (urls (setupWithToken example_K token_system))
       = ''https://rest-u001.example.com/api/v1/accounts/null/media/changed''
   \<and> (\<exists>out s' evs. init 0 example_K example_world Undefined (token_system, start)
          = Some (out, (s', \<lparr> trace = Request \<lparr> req_verb = GET,
                       req_url = ''https://rest-u001.example.com/api/v3/accounts/null/homescreen'',
                       req_headers = [(''token-auth'', Some ''tok'')], req_body = [] \<rparr> # evs,
                     draws = 0 \<rparr>)))"
proof -
  have h: "accountId token_system = None"
    by (simp add: token_system_def fresh_system_def new_BlinkCameraSystem_def)
  have t: "truthy_str (token token_system)" "truthy_str (regionId token_system)"
    by (simp_all add: token_system_def truthy_str_def)
  have f: "token token_system = Some ''tok''" "regionId token_system = Some ''u001''"
    "BLINK_URL example_K = ''example.com''"
    by (simp_all add: token_system_def example_K_def)
  from token_setup_null_account [OF h, of example_K 0 example_world Undefined start] h t
  show ?thesis
    by (simp add: Let_def f tpl_str_def start_def)
qed

section \<open>Device discovery\<close>

lemma dev_id_newBlinkDevice: "dev_id (newBlinkDevice data us h) = d_id data"
  by (simp add: dev_id_def newBlinkDevice_def)

lemma splice1_Cons:
  "splice1 0 (x # xs) = xs"
  "splice1 (Suc i) (x # xs) = x # splice1 i xs"
  by (simp_all add: splice1_def)

lemma findIndex_None: "findIndex p xs = None \<longleftrightarrow> (\<forall>x \<in> set xs. \<not> p x)"
  by (induction xs) (auto split: option.splits)

text \<open>Removing the first element with a key from a list without a second one.\<close>

lemma splice_first_set:
  assumes "findIndex (\<lambda>d. f d = k) xs = Some i" and "distinct (map f xs)"
  shows "f ` set (splice1 i xs) = f ` set xs - {k}"
  using assms
proof (induction xs arbitrary: i)
  case Nil
  then show ?case by simp
next
  case (Cons x xs)
  show ?case
  proof (cases "f x = k")
    case True
    with Cons.prems show ?thesis by (auto simp: splice1_Cons)
  next
    case False
    with Cons.prems obtain j where j: "findIndex (\<lambda>d. f d = k) xs = Some j" "i = Suc j"
      by (auto split: option.splits)
    with Cons.IH [of j] Cons.prems False show ?thesis
      by (auto simp: splice1_Cons)
  qed
qed

lemma set_splice1: "set (splice1 i xs) \<subseteq> set xs"
  by (auto simp: splice1_def dest: in_set_takeD in_set_dropD)

lemma splice_first_distinct:
  assumes "distinct (map f xs)"
  shows "distinct (map f (splice1 i xs))"
  using assms
proof (induction xs arbitrary: i)
  case Nil
  then show ?case by (simp add: splice1_def)
next
  case (Cons x xs)
  show ?case
  proof (cases i)
    case 0
    with Cons.prems show ?thesis by (simp add: splice1_Cons)
  next
    case (Suc j)
    from Cons.prems have "f x \<notin> f ` set (splice1 j xs)"
      using set_splice1 [of j xs] by auto
    with Cons Suc show ?thesis by (simp add: splice1_Cons)
  qed
qed

lemma splice_first_find:
  assumes "findIndex (\<lambda>d. f d = k) xs = Some i" and "k' \<noteq> k"
  shows "find (\<lambda>d. f d = k') (splice1 i xs) = find (\<lambda>d. f d = k') xs"
  using assms
proof (induction xs arbitrary: i)
  case Nil
  then show ?case by simp
next
  case (Cons x xs)
  show ?case
  proof (cases "f x = k")
    case True
    with Cons.prems show ?thesis by (auto simp: splice1_Cons)
  next
    case False
    with Cons.prems obtain j where j: "findIndex (\<lambda>d. f d = k) xs = Some j" "i = Suc j"
      by (auto split: option.splits)
    with Cons.IH [of j] Cons.prems show ?thesis
      by (auto simp: splice1_Cons)
  qed
qed

lemma find_append_absent:
  assumes "\<forall>x \<in> set xs. \<not> p x"
  shows "find p (xs @ ys) = find p ys"
  using assms by (induction xs) auto

lemma find_append_other:
  assumes "\<not> p y"
  shows "find p (xs @ [y]) = find p xs"
  using assms by (induction xs) auto

lemma find_filter_single:
  assumes "distinct (map f xs)" and "find (\<lambda>x. f x = k) xs = Some d"
  shows "filter (\<lambda>x. f x = k) xs = [d]"
  using assms
proof (induction xs)
  case Nil
  then show ?case by simp
next
  case (Cons x xs)
  show ?case
  proof (cases "f x = k")
    case True
    with Cons.prems have d: "d = x"
      by simp
    from Cons.prems have "f x \<notin> f ` set xs"
      by simp
    with True have "\<forall>y \<in> set xs. f y \<noteq> k"
      by blast
    with True d show ?thesis by (simp add: filter_empty_conv)
  next
    case False
    with Cons show ?thesis by simp
  qed
qed

text \<open>The device that \<open>getCameras\<close> builds from a descriptor.\<close>

lemma addDevice_distinct:
  assumes "distinct (map dev_id devs)"
  shows "distinct (map dev_id (addDevice s devs x))"
proof (cases "findIndex (\<lambda>d. dev_id d = d_id x) devs")
  case None
  then have "\<forall>d \<in> set devs. dev_id d \<noteq> d_id x"
    by (simp add: findIndex_None)
  with None assms show ?thesis
    by (auto simp: addDevice_def Let_def dev_id_newBlinkDevice)
next
  case (Some i)
  from splice_first_set [OF Some assms] splice_first_distinct [OF assms, of i] Some
  show ?thesis
    by (auto simp: addDevice_def Let_def dev_id_newBlinkDevice)
qed

lemma addDevice_find:
  assumes "distinct (map dev_id devs)"
  shows "find (\<lambda>d. dev_id d = k) (addDevice s devs x) =
           (if d_id x = k
            then Some (newBlinkDevice (x\<lparr>d_region_id := regionId s\<rparr>) (urls s) (authHeader s))
            else find (\<lambda>d. dev_id d = k) devs)"
proof (cases "findIndex (\<lambda>d. dev_id d = d_id x) devs")
  case None
  then have absent: "\<forall>d \<in> set devs. dev_id d \<noteq> d_id x"
    by (simp add: findIndex_None)
  show ?thesis
  proof (cases "d_id x = k")
    case True
    with None absent show ?thesis
      by (simp add: addDevice_def Let_def dev_id_newBlinkDevice find_append_absent)
  next
    case False
    with None show ?thesis
      by (simp add: addDevice_def Let_def dev_id_newBlinkDevice find_append_other)
  qed
next
  case (Some i)
  show ?thesis
  proof (cases "d_id x = k")
    case True
    from splice_first_set [OF Some assms] have "\<forall>d \<in> set (splice1 i devs). dev_id d \<noteq> d_id x"
      by auto
    with Some True show ?thesis
      by (simp add: addDevice_def Let_def dev_id_newBlinkDevice find_append_absent)
  next
    case False
    then have "k \<noteq> d_id x" by simp
    from splice_first_find [OF Some this] Some False show ?thesis
      by (simp add: addDevice_def Let_def dev_id_newBlinkDevice find_append_other)
  qed
qed

lemma foldl_addDevice_distinct:
  assumes "distinct (map dev_id devs)"
  shows "distinct (map dev_id (foldl (addDevice s) devs xs))"
  using assms by (induction xs arbitrary: devs) (simp_all add: addDevice_distinct)

lemma foldl_addDevice_find:
  assumes "distinct (map dev_id devs)"
  shows "find (\<lambda>d. dev_id d = k) (foldl (addDevice s) devs xs) =
           (if filter (\<lambda>x. d_id x = k) xs = [] then find (\<lambda>d. dev_id d = k) devs
            else Some (newBlinkDevice ((last (filter (\<lambda>x. d_id x = k) xs))\<lparr>d_region_id := regionId s\<rparr>)
                         (urls s) (authHeader s)))"
proof (induction xs rule: rev_induct)
  case Nil
  then show ?case by simp
next
  case (snoc x xs)
  from foldl_addDevice_distinct [OF assms] addDevice_find
  have "find (\<lambda>d. dev_id d = k) (addDevice s (foldl (addDevice s) devs xs) x) =
          (if d_id x = k
           then Some (newBlinkDevice (x\<lparr>d_region_id := regionId s\<rparr>) (urls s) (authHeader s))
           else find (\<lambda>d. dev_id d = k) (foldl (addDevice s) devs xs))"
    by blast
  with snoc show ?case by simp
qed

text \<open>
  C7. Let the ids of the devices of the controller be distinct (they are on a new
  controller, which has no device). After \<open>getCameras\<close> they are distinct again, and for
  every descriptor of the summary there is exactly one device with its id: the one built
  from the last descriptor with that id, whose thumbnail URL is the base URL, that
  descriptor's thumbnail path and \<open>.jpg\<close>.
\<close>

theorem getCameras_replace:
  assumes "distinct (map dev_id (devices s))"
    and "getSummary W (s, rt) = (Resolved summaries, st1)"
  shows "\<exists>devs rt'. getCameras W (s, rt) = (Resolved devs, (s\<lparr>devices := devs\<rparr>, rt'))
      \<and> distinct (map dev_id devs)
      \<and> (\<forall>desc \<in> set (s_cameras summaries @ s_owls summaries).
            \<exists>d. filter (\<lambda>d. dev_id d = d_id desc) devs = [d]
              \<and> d = newBlinkDevice
                      ((last (filter (\<lambda>x. d_id x = d_id desc)
                                (s_cameras summaries @ s_owls summaries)))
                         \<lparr>d_region_id := regionId s\<rparr>)
                      (urls s) (authHeader s)
              \<and> thumbnail d =
                  baseUrl (urls s)
                  @ d_thumbnail (last (filter (\<lambda>x. d_id x = d_id desc)
                                         (s_cameras summaries @ s_owls summaries)))
                  @ ''.jpg'')"
proof -
  define descs where "descs = s_cameras summaries @ s_owls summaries"
  define devs where "devs = foldl (addDevice s) (devices s) descs"
  from assms(2) have st1: "fst st1 = s"
    by (auto simp: getSummary_def http_def split: option.splits reply.splits)
  with assms(2) have run: "getCameras W (s, rt) = (Resolved devs, (s\<lparr>devices := devs\<rparr>, snd st1))"
    by (cases st1) (simp add: getCameras_def devs_def descs_def Let_def)
  have dist: "distinct (map dev_id devs)"
    unfolding devs_def by (rule foldl_addDevice_distinct [OF assms(1)])
  have each: "\<exists>d. filter (\<lambda>d. dev_id d = d_id desc) devs = [d]
                \<and> d = newBlinkDevice ((last (filter (\<lambda>x. d_id x = d_id desc) descs))
                                        \<lparr>d_region_id := regionId s\<rparr>) (urls s) (authHeader s)
                \<and> thumbnail d = baseUrl (urls s)
                    @ d_thumbnail (last (filter (\<lambda>x. d_id x = d_id desc) descs)) @ ''.jpg''"
    if "desc \<in> set descs" for desc
  proof -
    let ?d = "newBlinkDevice ((last (filter (\<lambda>x. d_id x = d_id desc) descs))
                               \<lparr>d_region_id := regionId s\<rparr>) (urls s) (authHeader s)"
    from that have "filter (\<lambda>x. d_id x = d_id desc) descs \<noteq> []"
      by (auto simp: filter_empty_conv)
    with foldl_addDevice_find [OF assms(1), of "d_id desc" s descs]
    have "find (\<lambda>d. dev_id d = d_id desc) devs = Some ?d"
      by (simp add: devs_def)
    from find_filter_single [OF dist this] show ?thesis
      by (simp add: thumbnail_def newBlinkDevice_def)
  qed
  from run dist each show ?thesis
    unfolding descs_def by blast
qed

text \<open>
  Two discoveries with Home selected: the response to the second one has a new thumbnail
  path for camera 5. The controller ends with one device, camera 5 with the new thumbnail
  URL.
\<close>

theorem getCameras_replace_witness:
  "distinct (map dev_id (devices (fst discovered_once)))
   \<and> map thumbnail (devices (fst discovered_once)) = [''https://rest-u001.example.com/thumb/a.jpg'']
   \<and> fst (getSummary example_world discovered_once)
       = Resolved \<lparr> s_networks = [home_net], s_sync_modules = [],
                    s_cameras = [camera5\<lparr>d_thumbnail := ''/thumb/b''\<rparr>], s_owls = [],
                    s_account_id = 7 \<rparr>
   \<and> distinct (map dev_id (devices (fst (snd (getCameras example_world discovered_once)))))
   \<and> map dev_id (devices (fst (snd (getCameras example_world discovered_once)))) = [5]
   \<and> map thumbnail (devices (fst (snd (getCameras example_world discovered_once))))
       = [''https://rest-u001.example.com/thumb/b.jpg'']"
proof -
  let ?us = "createBlinkUrls example_K (Some 7) (Some ''u001'')"
  let ?h = "Some [(''token-auth'', Some ''tok'')]"
  let ?req = "\<lparr> req_verb = GET,
                req_url = ''https://rest-u001.example.com/api/v3/accounts/7/homescreen'',
                req_headers = [(''token-auth'', Some ''tok'')], req_body = [] \<rparr>"
  let ?a = "newBlinkDevice (camera5\<lparr>d_region_id := Some ''u001''\<rparr>) ?us ?h"
  let ?b = "newBlinkDevice (camera5\<lparr>d_thumbnail := ''/thumb/b'', d_region_id := Some ''u001''\<rparr>) ?us ?h"
  let ?s1 = "selected_system\<lparr>devices := [?a]\<rparr>"
  let ?rt1 = "\<lparr> trace = [Request ?req], draws = 0 \<rparr>"
  let ?data = "\<lparr> s_networks = [home_net], s_sync_modules = [],
                 s_cameras = [camera5\<lparr>d_thumbnail := ''/thumb/b''\<rparr>], s_owls = [],
                 s_account_id = 7 \<rparr>"
  have home: "homeUrl ?us = ''https://rest-u001.example.com/api/v3/accounts/7/homescreen''"
    by (simp add: createBlinkUrls_def example_K_def tpl_str_def tpl_num_def show_int_def)
  have sel: "authHeader selected_system = ?h" "urls selected_system = ?us"
    "networks selected_system = [home_net]" "devices selected_system = []"
    "regionId selected_system = Some ''u001''"
    by (simp_all add: selected_system_def session_system_def fresh_system_def
        new_BlinkCameraSystem_def)
  have ids: "n_id home_net = 1" "n_id cabin_net = 2" "d_network_id camera5 = 1"
    "d_network_id camera6 = 2" "d_id camera5 = 5"
    by (simp_all add: home_net_def cabin_net_def camera5_def camera6_def)
  have thumb: "camera5\<lparr>d_thumbnail := ''/thumb/a''\<rparr> = camera5"
    by (simp add: camera5_def)
  have sum1: "getSummary example_world (selected_system, start)
              = (Resolved \<lparr> s_networks = [home_net], s_sync_modules = [], s_cameras = [camera5],
                            s_owls = [], s_account_id = 7 \<rparr>, (selected_system, ?rt1))"
    by (simp add: getSummary_def http_def sel home ids thumb found_def example_world_def start_def)
  have once: "discovered_once = (?s1, ?rt1)"
    by (simp add: discovered_once_def getCameras_def sum1 addDevice_def sel Let_def)
  have sum2: "getSummary example_world (?s1, ?rt1) = (Resolved ?data, (?s1, ?rt1\<lparr>trace := [Request ?req, Request ?req]\<rparr>))"
    by (simp add: getSummary_def http_def sel home ids found_def example_world_def)
  have d1: "distinct (map dev_id (devices ?s1))"
    by simp
  have two: "getCameras example_world (?s1, ?rt1)
             = (Resolved [?b], (?s1\<lparr>devices := [?b]\<rparr>, ?rt1\<lparr>trace := [Request ?req, Request ?req]\<rparr>))"
    by (simp add: getCameras_def sum2 addDevice_def sel Let_def dev_id_newBlinkDevice ids
        splice1_def)
  have ta: "thumbnail ?a = ''https://rest-u001.example.com/thumb/a.jpg''"
    and tb: "thumbnail ?b = ''https://rest-u001.example.com/thumb/b.jpg''"
    by (simp_all add: thumbnail_def newBlinkDevice_def createBlinkUrls_def example_K_def
        tpl_str_def camera5_def)
  have c1: "distinct (map dev_id (devices (fst discovered_once)))"
    by (simp add: once)
  have c2: "map thumbnail (devices (fst discovered_once))
            = [''https://rest-u001.example.com/thumb/a.jpg'']"
    by (simp add: once ta)
  have c3: "fst (getSummary example_world discovered_once) = Resolved ?data"
    by (simp add: once sum2)
  have c4: "distinct (map dev_id (devices (fst (snd (getCameras example_world discovered_once)))))"
    unfolding once using getCameras_replace [OF d1 sum2] by auto
  have c5: "map dev_id (devices (fst (snd (getCameras example_world discovered_once)))) = [5]"
    by (simp add: once two dev_id_newBlinkDevice ids)
  have c6: "map thumbnail (devices (fst (snd (getCameras example_world discovered_once))))
            = [''https://rest-u001.example.com/thumb/b.jpg'']"
    by (simp add: once two tb)
  from c1 c2 c3 c4 c5 c6 show ?thesis
    by blast
qed

end
